theory Spec2Isabelle
  imports Complex_Main "HOL-Library.DAList" "HOL-Library.Sublist"
begin

section \<open>LearnSphere core engine (src/core.ts)\<close>

text \<open>
  A shallow embedding of \<^verbatim>\<open>src/core.ts\<close>: the data model, the channel sequencer
  \<^verbatim>\<open>selectNextChannel\<close>, the skill-state transition \<^verbatim>\<open>transitionSkillState\<close> and
  the engine operations, with the engine's private state passed explicitly and a thrown
  \<^verbatim>\<open>Error\<close> returned as a value.
\<close>

subsection \<open>Numbers\<close>

text \<open>
  A JavaScript \<^verbatim>\<open>number\<close> is modelled as either \<^verbatim>\<open>NaN\<close> or an exact real.
  \<^verbatim>\<open>NaN\<close> is kept because the code's comparisons treat it specially: every arithmetic
  operation, \<^verbatim>\<open>Math.max\<close> and \<^verbatim>\<open>Math.min\<close> return \<^verbatim>\<open>NaN\<close> as soon as one
  operand is \<^verbatim>\<open>NaN\<close>, and \<^verbatim>\<open>NaN\<close> is falsy in a condition. A finite double is
  idealised as the real it denotes: rounding, overflow, the two infinities and the sign of
  zero are outside the model. The code only divides by non-zero constants; a division by
  zero, which would be infinite or \<^verbatim>\<open>NaN\<close> in JavaScript, is \<^verbatim>\<open>NaN\<close> here.
\<close>

datatype number = NaN | Num real

instantiation number :: comm_monoid_add
begin

definition zero_number :: number where
  "zero_number = Num 0"

fun plus_number :: "number \<Rightarrow> number \<Rightarrow> number" where
  "plus_number (Num x) (Num y) = Num (x + y)"
| "plus_number NaN b = NaN"
| "plus_number a NaN = NaN"

instance
proof
  fix m n k :: number
  show "0 + m = m"
    unfolding zero_number_def by (cases m; simp)
  show "m + n = n + m"
    by (cases m; cases n; simp)
  show "m + n + k = m + (n + k)"
    by (cases m; cases n; cases k; simp)
qed

end

instantiation number :: "{minus, times, inverse}"
begin

fun minus_number :: "number \<Rightarrow> number \<Rightarrow> number" where
  "minus_number (Num x) (Num y) = Num (x - y)"
| "minus_number NaN b = NaN"
| "minus_number a NaN = NaN"

fun times_number :: "number \<Rightarrow> number \<Rightarrow> number" where
  "times_number (Num x) (Num y) = Num (x * y)"
| "times_number NaN b = NaN"
| "times_number a NaN = NaN"

fun divide_number :: "number \<Rightarrow> number \<Rightarrow> number" where
  "divide_number (Num x) (Num y) = (if y = 0 then NaN else Num (x / y))"
| "divide_number NaN b = NaN"
| "divide_number a NaN = NaN"

fun inverse_number :: "number \<Rightarrow> number" where
  "inverse_number (Num x) = (if x = 0 then NaN else Num (1 / x))"
| "inverse_number NaN = NaN"

instance ..

end

text \<open>\<^verbatim>\<open>Math.max\<close> and \<^verbatim>\<open>Math.min\<close> of two arguments.\<close>

fun Math_max :: "number \<Rightarrow> number \<Rightarrow> number" where
  "Math_max (Num x) (Num y) = Num (max x y)"
| "Math_max NaN b = NaN"
| "Math_max a NaN = NaN"

fun Math_min :: "number \<Rightarrow> number \<Rightarrow> number" where
  "Math_min (Num x) (Num y) = Num (min x y)"
| "Math_min NaN b = NaN"
| "Math_min a NaN = NaN"

text \<open>Truthiness of a number in a condition: \<^verbatim>\<open>0\<close> and \<^verbatim>\<open>NaN\<close> are falsy.\<close>

fun truthy :: "number \<Rightarrow> bool" where
  "truthy NaN = False"
| "truthy (Num x) = (x \<noteq> 0)"

text \<open>
  Truthiness of an optional string (\<^verbatim>\<open>undefined\<close> is \<open>None\<close>): \<^verbatim>\<open>undefined\<close> and
  the empty string are falsy.
\<close>

fun truthy_string :: "string option \<Rightarrow> bool" where
  "truthy_string None = False"
| "truthy_string (Some s) = (s \<noteq> [])"



subsection \<open>Data model\<close>

type_synonym SignalChannel = string

definition RVKA_ORDER :: "SignalChannel list" where
  "RVKA_ORDER = [''reading'', ''visual'', ''kinesthetic'', ''auditory'']"

datatype Mode = assessment | sandbox

record SkillNode =
  id :: string
  label :: string
  universeId :: string
  baseDifficulty :: number

record SkillEdge =
  edge_from :: string
  edge_to :: string
  dependencyWeight :: number

record DifficultyArc =
  skillId :: string
  level :: number
  complexityWeight :: number

record SkillGraph =
  nodes :: "SkillNode list"
  edges :: "SkillEdge list"
  arcs :: "DifficultyArc list"

record Universe =
  id :: string
  label :: string
  skillGraph :: SkillGraph
  masteryThreshold :: number

record SignalEnvelope =
  channel :: SignalChannel
  observedAt :: number
  "value" :: number
  reasoningQuality :: number
  transferEvidence :: number
  misconceptionTag :: "string option"

text \<open>
  \<^verbatim>\<open>misconceptionCounts\<close> is an object whose own properties the code enumerates, so
  it is a list of (tag, count) pairs with distinct tags, in insertion order. (JavaScript
  enumerates integer-like keys first; the order does not change a sum in this model.)
  The other \<^verbatim>\<open>Record<string, _>\<close> objects are only read and written by key and are
  maps. All of them hold their own properties only: a key that names a member of
  \<^verbatim>\<open>Object.prototype\<close> (such as \<^verbatim>\<open>constructor\<close>) is outside the model.
\<close>

record SkillState =
  skillId :: string
  stability :: number
  transfer :: number
  momentum :: number
  reasoningQuality :: number
  recencyWeight :: number
  fragility :: number
  misconceptionCounts :: "(string, number) alist"
  lastUpdatedAt :: number
  masteryScore :: number

record TimelineEntry =
  skillId :: string
  timestamp :: number
  masteryScore :: number

record LearnerProfile =
  learnerId :: string
  mode :: Mode
  skillStates :: "string \<rightharpoonup> SkillState"
  timeline :: "TimelineEntry list"

record EngineState =
  universes :: "string \<rightharpoonup> Universe"
  learners :: "string \<rightharpoonup> LearnerProfile"

record AssessmentEvent =
  learnerId :: string
  universeId :: string
  skillId :: string
  expectedNextChannel :: SignalChannel
  signal :: SignalEnvelope

subsection \<open>clamp and emptySkillState\<close>

text \<open>\<^verbatim>\<open>clamp(n, min = 0, max = 1)\<close>; \<open>clamp01\<close> is the call with both defaults.\<close>

definition clamp :: "number \<Rightarrow> number \<Rightarrow> number \<Rightarrow> number" where
  "clamp n mn mx = Math_max mn (Math_min mx n)"

definition clamp01 :: "number \<Rightarrow> number" where
  "clamp01 n = clamp n (Num 0) (Num 1)"

definition emptySkillState :: "string \<Rightarrow> SkillState" where
  "emptySkillState sid =
     \<lparr> SkillState.skillId = sid,
       stability = Num 0,
       transfer = Num 0,
       momentum = Num 0,
       reasoningQuality = Num 0,
       recencyWeight = Num 0,
       fragility = Num 1,
       misconceptionCounts = DAList.empty,
       lastUpdatedAt = Num 0,
       masteryScore = Num 0 \<rparr>"

subsection \<open>The skill-state transition\<close>

text \<open>The local constants \<^verbatim>\<open>elapsedDays\<close> and \<^verbatim>\<open>decay\<close> of
  \<^verbatim>\<open>transitionSkillState\<close>.\<close>

definition elapsedDays :: "SkillState \<Rightarrow> SignalEnvelope \<Rightarrow> number" where
  "elapsedDays previous sg =
     (if truthy (lastUpdatedAt previous)
      then Math_max (Num 0)
             ((observedAt sg - lastUpdatedAt previous) / (Num 1000 * Num 60 * Num 60 * Num 24))
      else Num 0)"

definition decay :: "SkillState \<Rightarrow> SignalEnvelope \<Rightarrow> number" where
  "decay previous sg = clamp (Num 1 - elapsedDays previous sg * Num 0.03) (Num 0.5) (Num 1)"

text \<open>The copy of the previous counts, with the signal's tag counted when the tag is
  truthy (\<^verbatim>\<open>counts[tag] = (counts[tag] ?? 0) + 1\<close>).\<close>

definition countMisconception :: "(string, number) alist \<Rightarrow> string option \<Rightarrow> (string, number) alist" where
  "countMisconception counts tag =
     (if truthy_string tag
      then DAList.update (the tag)
             ((case DAList.lookup counts (the tag) of None \<Rightarrow> Num 0 | Some c \<Rightarrow> c) + Num 1) counts
      else counts)"

text \<open>The \<^verbatim>\<open>for ... in\<close> loop accumulating \<^verbatim>\<open>misconceptionPressure\<close> from 0.\<close>

definition misconceptionPressure :: "(string, number) alist \<Rightarrow> number" where
  "misconceptionPressure counts =
     fold (\<lambda>(tag, count) pressure. pressure + Math_min (Num 0.25) (count * Num 0.03))
          (DAList.impl_of counts) (Num 0)"

definition transitionSkillState :: "SkillState \<Rightarrow> SignalEnvelope \<Rightarrow> SkillState" where
  "transitionSkillState previous sg =
     (let d = decay previous sg;
          recencyWeight' = clamp01 (Num 0.7 * recencyWeight previous * d + Num 0.3 * Num 1);
          stability' = clamp01 (Num 0.65 * stability previous * d + Num 0.35 * value sg);
          transfer' = clamp01 (Num 0.7 * transfer previous * d + Num 0.3 * transferEvidence sg);
          reasoningQuality' = clamp01
            (Num 0.6 * SkillState.reasoningQuality previous * d
               + Num 0.4 * SignalEnvelope.reasoningQuality sg);
          momentumDelta = value sg - stability previous;
          momentum' = clamp01
            (Num 0.75 * momentum previous * d + Num 0.25 * ((momentumDelta + Num 1) / Num 2));
          misconceptionCounts' =
            countMisconception (misconceptionCounts previous) (misconceptionTag sg);
          pressure = misconceptionPressure misconceptionCounts';
          fragility' = clamp01
            (Num 1 - (Num 0.5 * stability' + Num 0.2 * transfer' + Num 0.3 * reasoningQuality'));
          penalizedFragility = clamp01 (fragility' + pressure * Num 0.2);
          masteryScore' = clamp01
            (Num 0.28 * stability' + Num 0.22 * transfer' + Num 0.18 * momentum'
               + Num 0.2 * reasoningQuality' + Num 0.12 * recencyWeight'
               - Num 0.18 * penalizedFragility)
      in \<lparr> SkillState.skillId = SkillState.skillId previous,
           stability = stability',
           transfer = transfer',
           momentum = momentum',
           reasoningQuality = reasoningQuality',
           recencyWeight = recencyWeight',
           fragility = penalizedFragility,
           misconceptionCounts = misconceptionCounts',
           lastUpdatedAt = observedAt sg,
           masteryScore = masteryScore' \<rparr>)"

subsection \<open>The channel sequencer\<close>

text \<open>\<^verbatim>\<open>Array.prototype.indexOf\<close>: the first index holding the value, or \<open>-1\<close>.\<close>

fun indexOf :: "'a list \<Rightarrow> 'a \<Rightarrow> int" where
  "indexOf [] x = - 1"
| "indexOf (y # ys) x =
     (if y = x then 0 else (let i = indexOf ys x in if i < 0 then - 1 else i + 1))"

text \<open>The argument is optional (\<open>None\<close> is \<^verbatim>\<open>undefined\<close>) and is a string at run time,
  so values outside the four channels are inputs too.\<close>

definition selectNextChannel :: "SignalChannel option \<Rightarrow> SignalChannel" where
  "selectNextChannel previousChannel =
     (if \<not> truthy_string previousChannel then RVKA_ORDER ! 0
      else (let index = indexOf RVKA_ORDER (the previousChannel)
            in if index < 0 \<or> index = int (length RVKA_ORDER) - 1 then RVKA_ORDER ! 0
               else RVKA_ORDER ! nat (index + 1)))"

text \<open>The channels obtained by calling \<^verbatim>\<open>selectNextChannel\<close> again and again on its
  own result, starting from \<^verbatim>\<open>undefined\<close>.\<close>

fun channelSequence :: "nat \<Rightarrow> SignalChannel" where
  "channelSequence 0 = selectNextChannel None"
| "channelSequence (Suc n) = selectNextChannel (Some (channelSequence n))"

subsection \<open>The engine\<close>

text \<open>A thrown \<^verbatim>\<open>new Error(message)\<close>.\<close>

datatype error = Error string

definition initialState :: EngineState where
  "initialState = \<lparr> universes = Map.empty, learners = Map.empty \<rparr>"

definition registerUniverse :: "EngineState \<Rightarrow> Universe \<Rightarrow> EngineState" where
  "registerUniverse s universe = s\<lparr> universes := (universes s)(Universe.id universe \<mapsto> universe) \<rparr>"

text \<open>The default \<^verbatim>\<open>mode = 'assessment'\<close> is passed by the callers that omit it.\<close>

definition ensureLearner :: "EngineState \<Rightarrow> string \<Rightarrow> Mode \<Rightarrow> EngineState" where
  "ensureLearner s lid m =
     (if learners s lid = None
      then s\<lparr> learners := (learners s)(lid \<mapsto>
             \<lparr> LearnerProfile.learnerId = lid, mode = m, skillStates = Map.empty, timeline = [] \<rparr>) \<rparr>
      else s)"

text \<open>\<^verbatim>\<open>getLearner\<close> returns the profile and the state that \<^verbatim>\<open>ensureLearner\<close> left.\<close>

definition getLearner :: "EngineState \<Rightarrow> string \<Rightarrow> LearnerProfile \<times> EngineState" where
  "getLearner s lid = (let s1 = ensureLearner s lid assessment in (the (learners s1 lid), s1))"

definition setMode :: "EngineState \<Rightarrow> string \<Rightarrow> Mode \<Rightarrow> EngineState" where
  "setMode s lid m =
     (let s1 = ensureLearner s lid assessment
      in s1\<lparr> learners := (learners s1)(lid \<mapsto> (the (learners s1 lid))\<lparr> mode := m \<rparr>) \<rparr>)"

text \<open>
  \<^verbatim>\<open>applyAssessmentEvent\<close> returns the thrown error or the returned profile, and the
  engine state it leaves behind in either case. The returned profile is the engine's own
  object, so after the two writes it is the updated profile.
\<close>

definition applyAssessmentEvent ::
    "EngineState \<Rightarrow> AssessmentEvent \<Rightarrow> (error + LearnerProfile) \<times> EngineState" where
  "applyAssessmentEvent s event =
     (let (learner, s1) = getLearner s (AssessmentEvent.learnerId event)
      in if mode learner = sandbox then (Inr learner, s1)
         else if channel (signal event) \<noteq> expectedNextChannel event
         then (Inl (Error (''RVKA contract violation: expected '' @ expectedNextChannel event
                             @ '', got '' @ channel (signal event))), s1)
         else if universes s1 (AssessmentEvent.universeId event) = None
         then (Inl (Error (''Universe '' @ AssessmentEvent.universeId event
                             @ '' is not registered'')), s1)
         else (let previous = (case skillStates learner (AssessmentEvent.skillId event) of
                                 None \<Rightarrow> emptySkillState (AssessmentEvent.skillId event)
                               | Some st \<Rightarrow> st);
                   next = transitionSkillState previous (signal event);
                   learner' = learner
                     \<lparr> skillStates := (skillStates learner)(AssessmentEvent.skillId event \<mapsto> next),
                       timeline := timeline learner @
                         [\<lparr> TimelineEntry.skillId = AssessmentEvent.skillId event,
                            timestamp = observedAt (signal event),
                            masteryScore = SkillState.masteryScore next \<rparr>] \<rparr>
               in (Inr learner',
                   s1\<lparr> learners := (learners s1)(AssessmentEvent.learnerId event \<mapsto> learner') \<rparr>)))"

subsection \<open>Sequences of engine calls\<close>

text \<open>The public operations of the engine, as calls a client can make one after another.\<close>

datatype EngineCall =
    RegisterUniverse Universe
  | EnsureLearner string Mode
  | SetMode string Mode
  | SelectNextChannel "SignalChannel option"
  | ApplyAssessmentEvent AssessmentEvent
  | GetLearner string
  | Snapshot

text \<open>The engine state a call leaves behind, whether it returns or throws.
  \<^verbatim>\<open>selectNextChannel\<close> and \<^verbatim>\<open>snapshot\<close> only read.\<close>

fun perform :: "EngineState \<Rightarrow> EngineCall \<Rightarrow> EngineState" where
  "perform s (RegisterUniverse u) = registerUniverse s u"
| "perform s (EnsureLearner lid m) = ensureLearner s lid m"
| "perform s (SetMode lid m) = setMode s lid m"
| "perform s (SelectNextChannel c) = s"
| "perform s (ApplyAssessmentEvent ev) = snd (applyAssessmentEvent s ev)"
| "perform s (GetLearner lid) = snd (getLearner s lid)"
| "perform s Snapshot = s"

fun run :: "EngineState \<Rightarrow> EngineCall list \<Rightarrow> EngineState" where
  "run s [] = s"
| "run s (c # cs) = run (perform s c) cs"

definition timelineOf :: "EngineState \<Rightarrow> string \<Rightarrow> TimelineEntry list" where
  "timelineOf s lid = (case learners s lid of None \<Rightarrow> [] | Some p \<Rightarrow> timeline p)"

text \<open>The mastery score of the skill state stored for a learner and a skill, if any.\<close>

definition storedMastery :: "EngineState \<Rightarrow> string \<Rightarrow> string \<Rightarrow> number option" where
  "storedMastery s lid sk =
     (case learners s lid of
        None \<Rightarrow> None
      | Some p \<Rightarrow> map_option SkillState.masteryScore (skillStates p sk))"

text \<open>A call of \<^verbatim>\<open>applyAssessmentEvent\<close> is a successful assessment-mode call when the
  learner it addresses is in assessment mode and the call returns.\<close>

definition succeedsInAssessment :: "EngineState \<Rightarrow> AssessmentEvent \<Rightarrow> bool" where
  "succeedsInAssessment s ev =
     (mode (fst (getLearner s (AssessmentEvent.learnerId ev))) = assessment
      \<and> \<not> isl (fst (applyAssessmentEvent s ev)))"

text \<open>The entries that the successful assessment-mode calls for learner \<open>lid\<close> in a
  sequence of calls should have logged, in call order, and the number of those calls.\<close>

fun expectedTimeline :: "string \<Rightarrow> EngineState \<Rightarrow> EngineCall list \<Rightarrow> TimelineEntry list" where
  "expectedTimeline lid s [] = []"
| "expectedTimeline lid s (ApplyAssessmentEvent ev # cs) =
     (if AssessmentEvent.learnerId ev = lid \<and> succeedsInAssessment s ev
      then (case storedMastery (perform s (ApplyAssessmentEvent ev)) lid (AssessmentEvent.skillId ev) of
              None \<Rightarrow> []
            | Some m \<Rightarrow> [\<lparr> TimelineEntry.skillId = AssessmentEvent.skillId ev,
                           timestamp = observedAt (signal ev),
                           masteryScore = m \<rparr>])
      else [])
     @ expectedTimeline lid (perform s (ApplyAssessmentEvent ev)) cs"
| "expectedTimeline lid s (c # cs) = expectedTimeline lid (perform s c) cs"

fun successCount :: "string \<Rightarrow> EngineState \<Rightarrow> EngineCall list \<Rightarrow> nat" where
  "successCount lid s [] = 0"
| "successCount lid s (ApplyAssessmentEvent ev # cs) =
     (if AssessmentEvent.learnerId ev = lid \<and> succeedsInAssessment s ev then 1 else 0)
     + successCount lid (perform s (ApplyAssessmentEvent ev)) cs"
| "successCount lid s (c # cs) = successCount lid (perform s c) cs"

subsection \<open>Notions used to state the properties\<close>



subsection \<open>Example inputs\<close>

text \<open>The signal of the spec's scenario, and variants of it.\<close>

definition scenarioSignal :: SignalEnvelope where
  "scenarioSignal =
     \<lparr> channel = ''reading'', observedAt = Num 1000, value = Num 0.9,
       reasoningQuality = Num 0.8, transferEvidence = Num 0.7, misconceptionTag = None \<rparr>"

definition scenarioUniverse :: Universe where
  "scenarioUniverse =
     \<lparr> Universe.id = ''u1'', label = ''Universe 1'',
       skillGraph = \<lparr> nodes = [], edges = [], arcs = [] \<rparr>,
       masteryThreshold = Num 0.8 \<rparr>"

definition scenarioEvent :: AssessmentEvent where
  "scenarioEvent =
     \<lparr> AssessmentEvent.learnerId = ''l1'', universeId = ''u1'', skillId = ''s1'',
       expectedNextChannel = ''reading'', signal = scenarioSignal \<rparr>"



definition lateSignal :: SignalEnvelope where
  "lateSignal = scenarioSignal\<lparr> observedAt := Num 8640001000 \<rparr>"





text \<open>Events and engine states built from the scenario: a signal on the visual
  channel at time 2000; an event whose signal is on another channel than the expected one;
  an event for a universe that is not registered; an event wrong in both ways; a second
  lawful event; the engine after registering the universe; the engine with learner
  \<^verbatim>\<open>l1\<close> in sandbox mode; and a sequence of calls.\<close>

definition visualSignal :: SignalEnvelope where
  "visualSignal = scenarioSignal\<lparr> channel := ''visual'', observedAt := Num 2000 \<rparr>"

definition mismatchEvent :: AssessmentEvent where
  "mismatchEvent = scenarioEvent\<lparr> signal := visualSignal \<rparr>"

definition missingUniverseEvent :: AssessmentEvent where
  "missingUniverseEvent = scenarioEvent\<lparr> AssessmentEvent.universeId := ''u_missing'' \<rparr>"

definition bothWrongEvent :: AssessmentEvent where
  "bothWrongEvent = mismatchEvent\<lparr> AssessmentEvent.universeId := ''u_missing'' \<rparr>"

definition secondEvent :: AssessmentEvent where
  "secondEvent =
     scenarioEvent\<lparr> AssessmentEvent.skillId := ''s2'', expectedNextChannel := ''visual'',
                    signal := visualSignal \<rparr>"

definition registeredState :: EngineState where
  "registeredState = registerUniverse initialState scenarioUniverse"

definition sandboxState :: EngineState where
  "sandboxState = setMode initialState ''l1'' sandbox"

definition exampleCalls :: "EngineCall list" where
  "exampleCalls =
     [RegisterUniverse scenarioUniverse,
      ApplyAssessmentEvent mismatchEvent,
      ApplyAssessmentEvent scenarioEvent,
      SetMode ''l1'' sandbox,
      ApplyAssessmentEvent secondEvent,
      SetMode ''l1'' assessment,
      ApplyAssessmentEvent missingUniverseEvent,
      ApplyAssessmentEvent secondEvent]"

section \<open>Properties\<close>

subsection \<open>Arithmetic of numbers\<close>









lemma NaN_right [simp]:
  "a + NaN = NaN" "a - NaN = NaN" "a * NaN = NaN" "a / NaN = NaN"
  "Math_max a NaN = NaN" "Math_min a NaN = NaN"
  by (cases a; simp)+


subsection \<open>Decay\<close>







text \<open>
  C10. Whenever the previous state's \<^verbatim>\<open>lastUpdatedAt\<close> is 0, \<^verbatim>\<open>elapsedDays\<close> is 0 and
  the decay factor is 1, whatever the new signal's \<^verbatim>\<open>observedAt\<close> is. That is so for a
  skill that was never updated (the default state) and for a state produced by a signal
  whose \<^verbatim>\<open>observedAt\<close> was 0, since the transition stores that 0 as \<^verbatim>\<open>lastUpdatedAt\<close>.
\<close>

theorem zero_timestamp_means_no_decay:
  "(lastUpdatedAt previous = Num 0 \<longrightarrow>
      elapsedDays previous sg = Num 0 \<and> decay previous sg = Num 1)
   \<and> decay (emptySkillState sid) sg = Num 1
   \<and> (observedAt sg0 = Num 0 \<longrightarrow>
        lastUpdatedAt (transitionSkillState previous sg0) = Num 0
        \<and> decay (transitionSkillState previous sg0) sg = Num 1)"
  by (simp add: elapsedDays_def decay_def clamp_def transitionSkillState_def Let_def
        emptySkillState_def)

theorem zero_timestamp_means_no_decay_witness:
  "lastUpdatedAt (emptySkillState ''s1'') = Num 0
   \<and> elapsedDays (emptySkillState ''s1'') lateSignal = Num 0
   \<and> decay (emptySkillState ''s1'') lateSignal = Num 1"
  using zero_timestamp_means_no_decay[of "emptySkillState ''s1''" lateSignal]
  by (simp add: emptySkillState_def)

subsection \<open>The channel cycle\<close>

lemma indexOf_absent: "x \<notin> set xs \<Longrightarrow> indexOf xs x = - 1"
  by (induction xs) (auto simp: Let_def)

lemma selectNextChannel_successor:
  assumes "i < 4"
  shows "selectNextChannel (Some (RVKA_ORDER ! i)) = RVKA_ORDER ! (Suc i mod 4)"
proof -
  from assms consider "i = 0" | "i = 1" | "i = 2" | "i = 3"
    by linarith
  then show ?thesis
    by cases (simp_all add: selectNextChannel_def RVKA_ORDER_def)
qed

lemma channelSequence_mod: "channelSequence n = RVKA_ORDER ! (n mod 4)"
proof (induction n)
  case 0
  show ?case by (simp add: selectNextChannel_def)
next
  case (Suc n)
  have "channelSequence (Suc n) = selectNextChannel (Some (RVKA_ORDER ! (n mod 4)))"
    using Suc by simp
  also have "\<dots> = RVKA_ORDER ! (Suc (n mod 4) mod 4)"
    by (rule selectNextChannel_successor) simp
  also have "Suc (n mod 4) mod 4 = Suc n mod 4"
    by (simp add: mod_Suc_eq)
  finally show ?case .
qed

text \<open>
  C5. \<^verbatim>\<open>selectNextChannel(undefined)\<close> is \<^verbatim>\<open>reading\<close>; reading, visual and kinesthetic
  are followed by visual, kinesthetic and auditory; auditory and every value outside the
  four channels are followed by reading; so the channels obtained by iterating from
  \<^verbatim>\<open>undefined\<close> are reading, visual, kinesthetic, auditory, reading, ... with period 4.
  The function has no engine state among its arguments.
\<close>

theorem channel_cycle:
  "selectNextChannel None = ''reading''
   \<and> selectNextChannel (Some ''reading'') = ''visual''
   \<and> selectNextChannel (Some ''visual'') = ''kinesthetic''
   \<and> selectNextChannel (Some ''kinesthetic'') = ''auditory''
   \<and> selectNextChannel (Some ''auditory'') = ''reading''
   \<and> (c \<notin> set RVKA_ORDER \<longrightarrow> selectNextChannel (Some c) = ''reading'')
   \<and> channelSequence n = RVKA_ORDER ! (n mod 4)
   \<and> channelSequence (n + 4) = channelSequence n"
proof -
  have "c \<notin> set RVKA_ORDER \<Longrightarrow> selectNextChannel (Some c) = ''reading''"
    by (simp add: selectNextChannel_def indexOf_absent) (simp add: RVKA_ORDER_def)
  moreover have "channelSequence (n + 4) = channelSequence n"
    by (simp add: channelSequence_mod)
  ultimately show ?thesis
    by (simp add: channelSequence_mod) (simp add: selectNextChannel_def RVKA_ORDER_def)
qed

theorem channel_cycle_witness:
  "''tactile'' \<notin> set RVKA_ORDER
   \<and> selectNextChannel (Some ''tactile'') = ''reading''
   \<and> channelSequence 6 = ''kinesthetic''
   \<and> channelSequence 10 = channelSequence 6"
proof -
  have "''tactile'' \<notin> set RVKA_ORDER"
    by (simp add: RVKA_ORDER_def)
  moreover have "[''reading'', ''visual'', ''kinesthetic'', ''auditory''] ! (6 mod 4) = ''kinesthetic''"
    by simp
  ultimately show ?thesis
    using channel_cycle[of "''tactile''" 6] by (simp add: RVKA_ORDER_def)
qed

subsection \<open>Misconception counts and pressure\<close>










subsection \<open>The transition\<close>














subsection \<open>The engine\<close>

lemma ensureLearner_universes: "universes (ensureLearner s l m) = universes s"
  by (simp add: ensureLearner_def)

lemma ensureLearner_present: "learners s l = Some p \<Longrightarrow> ensureLearner s l m = s"
  by (simp add: ensureLearner_def)

lemma getLearner_present: "learners s l = Some p \<Longrightarrow> getLearner s l = (p, s)"
  by (simp add: getLearner_def ensureLearner_def)

lemma getLearner_state: "snd (getLearner s l) = ensureLearner s l assessment"
  by (simp add: getLearner_def Let_def)

text \<open>The profile that \<^verbatim>\<open>getLearner\<close> returns is the one stored under the id, so the
  read in its definition never misses.\<close>

lemma getLearner_stored: "learners (snd (getLearner s l)) l = Some (fst (getLearner s l))"
  by (simp add: getLearner_def Let_def ensureLearner_def)

text \<open>\<^verbatim>\<open>applyAssessmentEvent\<close> with the pair that \<^verbatim>\<open>getLearner\<close> returns taken apart.\<close>

lemma apply_unfold:
  "applyAssessmentEvent s event =
     (let learner = fst (getLearner s (AssessmentEvent.learnerId event));
          s1 = ensureLearner s (AssessmentEvent.learnerId event) assessment
      in if mode learner = sandbox then (Inr learner, s1)
         else if channel (signal event) \<noteq> expectedNextChannel event
         then (Inl (Error (''RVKA contract violation: expected '' @ expectedNextChannel event
                             @ '', got '' @ channel (signal event))), s1)
         else if universes s (AssessmentEvent.universeId event) = None
         then (Inl (Error (''Universe '' @ AssessmentEvent.universeId event
                             @ '' is not registered'')), s1)
         else (let previous = (case skillStates learner (AssessmentEvent.skillId event) of
                                 None \<Rightarrow> emptySkillState (AssessmentEvent.skillId event)
                               | Some st \<Rightarrow> st);
                   next = transitionSkillState previous (signal event);
                   learner' = learner
                     \<lparr> skillStates := (skillStates learner)(AssessmentEvent.skillId event \<mapsto> next),
                       timeline := timeline learner @
                         [\<lparr> TimelineEntry.skillId = AssessmentEvent.skillId event,
                            timestamp = observedAt (signal event),
                            masteryScore = SkillState.masteryScore next \<rparr>] \<rparr>
               in (Inr learner',
                   s1\<lparr> learners := (learners s1)(AssessmentEvent.learnerId event \<mapsto> learner') \<rparr>)))"
  by (simp add: applyAssessmentEvent_def split_def Let_def getLearner_state
        ensureLearner_universes)

lemmas example_defs =
  exampleCalls_def scenarioUniverse_def scenarioEvent_def scenarioSignal_def visualSignal_def
  mismatchEvent_def missingUniverseEvent_def bothWrongEvent_def secondEvent_def
  initialState_def registeredState_def sandboxState_def

lemmas engine_defs =
  registerUniverse_def ensureLearner_def getLearner_def setMode_def applyAssessmentEvent_def
  succeedsInAssessment_def storedMastery_def timelineOf_def Let_def

lemma sandboxState_l1:
  "learners sandboxState ''l1'' =
     Some \<lparr> LearnerProfile.learnerId = ''l1'', mode = sandbox, skillStates = Map.empty,
            timeline = [] \<rparr>"
  by (simp add: example_defs engine_defs)

lemma default_mastery:
  "SkillState.masteryScore (transitionSkillState (emptySkillState sk) scenarioSignal)
     = Num 0.15034"
  "SkillState.masteryScore (transitionSkillState (emptySkillState sk) visualSignal)
     = Num 0.15034"
  by (simp_all add: transitionSkillState_def Let_def emptySkillState_def scenarioSignal_def
        visualSignal_def decay_def elapsedDays_def clamp_def clamp01_def countMisconception_def
        misconceptionPressure_def DAList.empty.rep_eq)

text \<open>
  C4. For a learner whose stored mode is sandbox, \<^verbatim>\<open>applyAssessmentEvent\<close> returns the
  learner's profile, whatever the event's channels and universe are, and leaves the whole
  engine state, the learner's skill states and timeline included, as it was.
\<close>

theorem sandbox_bypass:
  assumes "learners s (AssessmentEvent.learnerId ev) = Some p" and "mode p = sandbox"
  shows "applyAssessmentEvent s ev = (Inr p, s)"
  using assms by (simp add: apply_unfold getLearner_present ensureLearner_present)

text \<open>An event on the wrong channel for an unregistered universe, for a sandbox learner.\<close>

theorem sandbox_bypass_witness:
  "learners sandboxState ''l1'' =
     Some \<lparr> LearnerProfile.learnerId = ''l1'', mode = sandbox, skillStates = Map.empty,
            timeline = [] \<rparr>
   \<and> channel (signal bothWrongEvent) \<noteq> expectedNextChannel bothWrongEvent
   \<and> universes sandboxState (AssessmentEvent.universeId bothWrongEvent) = None
   \<and> applyAssessmentEvent sandboxState bothWrongEvent =
       (Inr \<lparr> LearnerProfile.learnerId = ''l1'', mode = sandbox, skillStates = Map.empty,
              timeline = [] \<rparr>, sandboxState)"
proof -
  have i: "AssessmentEvent.learnerId bothWrongEvent = ''l1''"
    by (simp add: example_defs)
  have "channel (signal bothWrongEvent) \<noteq> expectedNextChannel bothWrongEvent"
    by (simp add: example_defs)
  moreover have "universes sandboxState (AssessmentEvent.universeId bothWrongEvent) = None"
    by (simp add: example_defs engine_defs)
  ultimately show ?thesis
    using sandbox_bypass[of sandboxState bothWrongEvent, unfolded i, OF sandboxState_l1]
      sandboxState_l1
    by simp
qed

text \<open>
  C3, as amended. When \<^verbatim>\<open>applyAssessmentEvent\<close> fails, the universes and every
  learner profile that existed before the call (its mode, skill states and timeline) are
  as they were, and so is the whole state when the event's learner had a profile. The one
  change a failed call can leave is a fresh profile (assessment mode, no skill states,
  empty timeline) for the event's learner when there was none: \<^verbatim>\<open>getLearner\<close> creates
  it before the channel check.
\<close>

theorem failed_event_state:
  assumes "fst (applyAssessmentEvent s ev) = Inl e"
  shows "universes (snd (applyAssessmentEvent s ev)) = universes s
     \<and> (\<forall>l p. learners s l = Some p \<longrightarrow> learners (snd (applyAssessmentEvent s ev)) l = Some p)
     \<and> (\<forall>l. l \<noteq> AssessmentEvent.learnerId ev \<longrightarrow>
            learners (snd (applyAssessmentEvent s ev)) l = learners s l)
     \<and> (learners s (AssessmentEvent.learnerId ev) \<noteq> None \<longrightarrow>
          snd (applyAssessmentEvent s ev) = s)
     \<and> (learners s (AssessmentEvent.learnerId ev) = None \<longrightarrow>
          learners (snd (applyAssessmentEvent s ev)) (AssessmentEvent.learnerId ev) =
            Some \<lparr> LearnerProfile.learnerId = AssessmentEvent.learnerId ev, mode = assessment,
                   skillStates = Map.empty, timeline = [] \<rparr>)"
proof -
  have "snd (applyAssessmentEvent s ev)
          = ensureLearner s (AssessmentEvent.learnerId ev) assessment"
    using assms by (simp add: apply_unfold Let_def split: if_splits)
  then show ?thesis
    by (auto simp: ensureLearner_def)
qed

theorem failed_event_state_witness:
  "fst (applyAssessmentEvent registeredState mismatchEvent)
     = Inl (Error ''RVKA contract violation: expected reading, got visual'')
   \<and> learners registeredState ''l1'' = None
   \<and> universes (snd (applyAssessmentEvent registeredState mismatchEvent))
       = universes registeredState
   \<and> learners (snd (applyAssessmentEvent registeredState mismatchEvent)) ''l1'' =
       Some \<lparr> LearnerProfile.learnerId = ''l1'', mode = assessment, skillStates = Map.empty,
              timeline = [] \<rparr>"
proof -
  have f: "fst (applyAssessmentEvent registeredState mismatchEvent)
             = Inl (Error ''RVKA contract violation: expected reading, got visual'')"
    by (simp add: example_defs engine_defs)
  have i: "AssessmentEvent.learnerId mismatchEvent = ''l1''"
    by (simp add: example_defs)
  have n: "learners registeredState ''l1'' = None"
    by (simp add: example_defs engine_defs)
  show ?thesis
    using failed_event_state[OF f, unfolded i] f n by simp
qed

text \<open>C3 as stated fails: on a fresh engine, an event on the wrong channel throws, and
  the learners map has gained a profile for the event's learner.\<close>

theorem failed_event_state_counterexample:
  "fst (applyAssessmentEvent initialState mismatchEvent)
     = Inl (Error ''RVKA contract violation: expected reading, got visual'')
   \<and> learners initialState ''l1'' = None
   \<and> learners (snd (applyAssessmentEvent initialState mismatchEvent)) ''l1'' =
       Some \<lparr> LearnerProfile.learnerId = ''l1'', mode = assessment, skillStates = Map.empty,
              timeline = [] \<rparr>"
  by (simp add: example_defs engine_defs)





subsection \<open>The timeline\<close>

lemma timelineOf_ensureLearner: "timelineOf (ensureLearner s l m) lid = timelineOf s lid"
  by (auto simp: timelineOf_def ensureLearner_def split: option.split)

lemma timelineOf_update:
  "timelineOf (s\<lparr> learners := (learners s)(l \<mapsto> p) \<rparr>) lid
     = (if lid = l then timeline p else timelineOf s lid)"
  by (simp add: timelineOf_def)

lemma timelineOf_registerUniverse: "timelineOf (registerUniverse s u) lid = timelineOf s lid"
  by (simp add: timelineOf_def registerUniverse_def)

lemma timelineOf_setMode: "timelineOf (setMode s l m) lid = timelineOf s lid"
  by (auto simp: timelineOf_def setMode_def ensureLearner_def Let_def split: option.split)

lemma timelineOf_getLearner: "timelineOf s l = timeline (fst (getLearner s l))"
  by (auto simp: timelineOf_def getLearner_def ensureLearner_def Let_def split: option.split)

text \<open>A call of \<^verbatim>\<open>applyAssessmentEvent\<close> appends one entry to the timeline of its
  learner when it is a successful assessment-mode call, and leaves every timeline as it
  was otherwise.\<close>

lemma apply_timeline:
  "timelineOf (snd (applyAssessmentEvent s ev)) lid =
     timelineOf s lid @
       (if AssessmentEvent.learnerId ev = lid \<and> succeedsInAssessment s ev
        then (case storedMastery (snd (applyAssessmentEvent s ev)) lid
                     (AssessmentEvent.skillId ev) of
                None \<Rightarrow> []
              | Some m \<Rightarrow> [\<lparr> TimelineEntry.skillId = AssessmentEvent.skillId ev,
                             timestamp = observedAt (signal ev), masteryScore = m \<rparr>])
        else [])"
proof (cases "succeedsInAssessment s ev")
  case True
  then show ?thesis
    by (auto simp: succeedsInAssessment_def apply_unfold Let_def timelineOf_ensureLearner
          timelineOf_update storedMastery_def timelineOf_getLearner[symmetric] split: if_splits)
next
  case False
  then have "snd (applyAssessmentEvent s ev)
               = ensureLearner s (AssessmentEvent.learnerId ev) assessment"
    by (cases "mode (fst (getLearner s (AssessmentEvent.learnerId ev)))")
       (auto simp: succeedsInAssessment_def apply_unfold Let_def split: if_splits)
  then show ?thesis
    using False by (simp add: timelineOf_ensureLearner)
qed

lemma apply_stored:
  "succeedsInAssessment s ev \<Longrightarrow>
   storedMastery (snd (applyAssessmentEvent s ev)) (AssessmentEvent.learnerId ev)
     (AssessmentEvent.skillId ev) \<noteq> None"
  by (auto simp: succeedsInAssessment_def apply_unfold Let_def storedMastery_def
        split: if_splits)

lemma perform_timeline:
  "timelineOf (perform s c) lid = timelineOf s lid @ expectedTimeline lid s [c]"
  by (cases c)
     (simp_all add: timelineOf_ensureLearner timelineOf_registerUniverse timelineOf_setMode
        getLearner_state apply_timeline)

lemma expectedTimeline_Cons:
  "expectedTimeline lid s (c # cs)
     = expectedTimeline lid s [c] @ expectedTimeline lid (perform s c) cs"
  by (cases c) simp_all

lemma run_timeline:
  "timelineOf (run s cs) lid = timelineOf s lid @ expectedTimeline lid s cs"
proof (induction cs arbitrary: s)
  case Nil
  show ?case by simp
next
  case (Cons c cs)
  have "timelineOf (run s (c # cs)) lid
          = timelineOf (perform s c) lid @ expectedTimeline lid (perform s c) cs"
    using Cons.IH[of "perform s c"] by simp
  then show ?case
    by (simp only: perform_timeline expectedTimeline_Cons[of lid s c cs] append_assoc)
qed

lemma expectedTimeline_length: "length (expectedTimeline lid s cs) = successCount lid s cs"
proof (induction cs arbitrary: s)
  case Nil
  show ?case by simp
next
  case (Cons c cs)
  show ?case
  proof (cases c)
    case (ApplyAssessmentEvent ev)
    then show ?thesis
      using Cons.IH[of "perform s c"] apply_stored[of s ev]
      by (auto split: option.split)
  qed (use Cons.IH[of "perform s c"] in simp_all)
qed

text \<open>
  C8. After any sequence of engine calls on a new engine, the timeline of a learner holds
  exactly one entry per successful assessment-mode call of \<^verbatim>\<open>applyAssessmentEvent\<close> for
  that learner, in call order, each with the event's skill id, the signal's
  \<^verbatim>\<open>observedAt\<close> and the mastery score of the skill state the call stored; so N such
  calls give N entries. From any state the calls append those entries to the timeline
  that was there, and no single call of any operation removes or reorders entries: the
  old timeline is a prefix of the new one.
\<close>

theorem timeline_append_only:
  "timelineOf (run initialState cs) lid = expectedTimeline lid initialState cs
   \<and> length (timelineOf (run initialState cs) lid) = successCount lid initialState cs
   \<and> timelineOf (run s cs) lid = timelineOf s lid @ expectedTimeline lid s cs
   \<and> prefix (timelineOf s lid) (timelineOf (perform s c) lid)"
proof -
  have "timelineOf initialState lid = []"
    by (simp add: timelineOf_def initialState_def)
  then have "timelineOf (run initialState cs) lid = expectedTimeline lid initialState cs"
    by (simp add: run_timeline)
  moreover have "prefix (timelineOf s lid) (timelineOf (perform s c) lid)"
    by (simp add: perform_timeline)
  ultimately show ?thesis
    by (simp add: run_timeline expectedTimeline_length)
qed

lemma example_expected:
  "expectedTimeline ''l1'' initialState exampleCalls =
     [\<lparr> TimelineEntry.skillId = ''s1'', timestamp = Num 1000, masteryScore = Num 0.15034 \<rparr>,
      \<lparr> TimelineEntry.skillId = ''s2'', timestamp = Num 2000, masteryScore = Num 0.15034 \<rparr>]"
  using default_mastery[unfolded scenarioSignal_def visualSignal_def]
  by (simp add: example_defs engine_defs)

lemma example_count: "successCount ''l1'' initialState exampleCalls = 2"
  by (simp add: example_defs engine_defs)

text \<open>Eight calls, of which two are successful assessment-mode events for \<^verbatim>\<open>l1\<close>; the
  others register the universe, fail, switch the mode or run in sandbox mode.\<close>

theorem timeline_append_only_witness:
  "successCount ''l1'' initialState exampleCalls = 2
   \<and> timelineOf (run initialState exampleCalls) ''l1'' =
     [\<lparr> TimelineEntry.skillId = ''s1'', timestamp = Num 1000, masteryScore = Num 0.15034 \<rparr>,
      \<lparr> TimelineEntry.skillId = ''s2'', timestamp = Num 2000, masteryScore = Num 0.15034 \<rparr>]"
  using timeline_append_only[of exampleCalls "''l1''" initialState Snapshot]
    example_expected example_count
  by simp

end
